theory Spec2Isabelle
  imports Main "HOL-Library.FSet"
begin

section \<open>The broadcasting WebSocket server of \<^verbatim>\<open>python-server/websocket_server.py\<close>\<close>

text \<open>
  The server keeps one shared set of connections, \<^verbatim>\<open>connected_clients\<close>, and runs one
  \<^verbatim>\<open>handle_client\<close> coroutine per connection. The embedding below follows one coroutine at a
  time: every \<^verbatim>\<open>async def\<close> of the class becomes a function from the state of the world to
  the outcome of the call (an exception or a value) together with the new state. The state
  is returned in both cases, because what a coroutine did before it raised stays done.
  What other coroutines do to the registry while this one awaits is not part of the
  embedding; the tasks of one \<^verbatim>\<open>asyncio.gather\<close> run one after the other, which is
  one of the schedules the event loop may choose, and they touch disjoint connections.

  What lies outside the file is taken as it is used there:
  \<^item> \<^verbatim>\<open>json.loads\<close>, \<^verbatim>\<open>json.dumps\<close> and \<^verbatim>\<open>datetime.isoformat\<close> are the fields of a
    \<open>codec\<close>, about which nothing is assumed;
  \<^item> \<^verbatim>\<open>websocket.send\<close> succeeds or raises according to the state of the peer's transport;
  \<^item> the inbound iteration \<^verbatim>\<open>async for message in websocket\<close> is a list of payloads
    followed by the way the iteration ends.
\<close>

subsection \<open>Values\<close>

type_synonym conn = nat

datatype json =
    JNull
  | JBool bool
  | JNum int
  | JStr string
  | JArr "json list"
  | JObj "(string \<times> json) list"

datatype exn = ConnectionClosed | JSONDecodeError | AttributeError | OtherException

text \<open>What \<^verbatim>\<open>websocket.send\<close> meets: an open transport, a closed one
  (\<^verbatim>\<open>ConnectionClosed\<close>), or one failing in another way (the \<^verbatim>\<open>except Exception\<close> of
  \<^verbatim>\<open>send_to_client\<close>).\<close>

datatype transport = Open | Closed | Broken

text \<open>One constructor per \<^verbatim>\<open>logger\<close> call of the file, with the values it formats.\<close>

datatype log_entry =
    ClientConnected nat
  | ClientDisconnected nat
  | NoClientsForBroadcast
  | BroadcastError exn
  | SendToClosed
  | SendError exn
  | Received string
  | InvalidJSON string
  | ProcessingError exn
  | ClosedNormally
  | HandlerError exn

text \<open>What a call hands back to its caller: Python's \<^verbatim>\<open>None\<close>, or a list of per-task
  results as \<^verbatim>\<open>asyncio.gather\<close> produces it.\<close>

datatype retval = PyNone | PyList "(exn + unit) list"

text \<open>How the inbound iteration ends: a normal close ends it silently, an abnormal close
  and a keepalive timeout raise \<^verbatim>\<open>ConnectionClosed\<close>, anything else raises another
  exception.\<close>

datatype close_cause = NormalClose | AbnormalClose | KeepaliveTimeout | IterationError

record world =
  connected_clients :: "conn fset"
  transport :: "conn \<Rightarrow> transport"
  sent :: "(conn \<times> string \<times> exn option) list"
  logged :: "log_entry list"
  clock :: nat

record codec =
  loads :: "string \<Rightarrow> exn + json"
  dumps :: "json \<Rightarrow> string"
  isoformat :: "nat \<Rightarrow> string"

subsection \<open>Library calls\<close>

definition emit :: "log_entry \<Rightarrow> world \<Rightarrow> world" where
  "emit e s = s\<lparr>logged := logged s @ [e]\<rparr>"

text \<open>\<^verbatim>\<open>set.add\<close> and \<^verbatim>\<open>set.discard\<close> on \<^verbatim>\<open>self.connected_clients\<close>.\<close>

definition add_client :: "conn \<Rightarrow> world \<Rightarrow> world" where
  "add_client websocket s = s\<lparr>connected_clients := finsert websocket (connected_clients s)\<rparr>"

definition discard_client :: "conn \<Rightarrow> world \<Rightarrow> world" where
  "discard_client websocket s = s\<lparr>connected_clients := connected_clients s |-| {|websocket|}\<rparr>"

text \<open>\<^verbatim>\<open>datetime.now().isoformat()\<close>: every call reads the clock and moves it on.\<close>

definition now_isoformat :: "codec \<Rightarrow> world \<Rightarrow> string \<times> world" where
  "now_isoformat cd s = (isoformat cd (clock s), s\<lparr>clock := Suc (clock s)\<rparr>)"

text \<open>\<^verbatim>\<open>str(n)\<close> of an f-string.\<close>

fun string_of_nat :: "nat \<Rightarrow> string" where
  "string_of_nat n =
     (if n < 10 then [char_of (48 + n)]
      else string_of_nat (n div 10) @ [char_of (48 + n mod 10)])"

declare string_of_nat.simps [simp del]

definition send_result :: "transport \<Rightarrow> exn option" where
  "send_result t =
     (case t of Open \<Rightarrow> None | Closed \<Rightarrow> Some ConnectionClosed | Broken \<Rightarrow> Some OtherException)"

text \<open>\<^verbatim>\<open>await websocket.send(payload)\<close>. Every call is recorded in \<open>sent\<close> with its
  result (\<open>None\<close>: the frame was written).\<close>

definition ws_send :: "conn \<Rightarrow> string \<Rightarrow> world \<Rightarrow> (exn + unit) \<times> world" where
  "ws_send websocket payload s =
     (let r = send_result (transport s websocket);
          s' = s\<lparr>sent := sent s @ [(websocket, payload, r)]\<rparr>
      in case r of None \<Rightarrow> (Inr (), s') | Some e \<Rightarrow> (Inl e, s'))"

text \<open>\<^verbatim>\<open>data.get(key, default)\<close>: only a dict has the method; \<open>is_dict\<close> tells whether
  a parsed value is one.\<close>

fun is_dict :: "json \<Rightarrow> bool" where
  "is_dict (JObj kvs) = True"
| "is_dict _ = False"

fun py_get :: "json \<Rightarrow> string \<Rightarrow> json \<Rightarrow> exn + json" where
  "py_get (JObj kvs) key dflt = Inr (case map_of kvs key of None \<Rightarrow> dflt | Some v \<Rightarrow> v)"
| "py_get _ key dflt = Inl AttributeError"

fun stream_end :: "close_cause \<Rightarrow> exn + unit" where
  "stream_end NormalClose = Inr ()"
| "stream_end AbnormalClose = Inl ConnectionClosed"
| "stream_end KeepaliveTimeout = Inl ConnectionClosed"
| "stream_end IterationError = Inl OtherException"

subsection \<open>\<^verbatim>\<open>WebSocketServer\<close>\<close>

definition send_to_client :: "conn \<Rightarrow> string \<Rightarrow> world \<Rightarrow> (exn + unit) \<times> world" where
  "send_to_client websocket message s =
     (case ws_send websocket message s of
        (Inr u, s') \<Rightarrow> (Inr (), s')
      | (Inl e, s') \<Rightarrow>
          if e = ConnectionClosed
          then (Inr (), discard_client websocket (emit SendToClosed s'))
          else (Inr (), emit (SendError e) s'))"

text \<open>\<^verbatim>\<open>asyncio.gather(*send_tasks, return_exceptions=True)\<close>: every task runs, and its
  result or exception becomes one entry of the list.\<close>

fun gather :: "conn list \<Rightarrow> string \<Rightarrow> world \<Rightarrow> (exn + unit) list \<times> world" where
  "gather [] message s = ([], s)"
| "gather (client # clients) message s =
     (let (r, s1) = send_to_client client message s;
          (rs, s2) = gather clients message s1
      in (r # rs, s2))"

text \<open>The loop over \<^verbatim>\<open>results\<close> that logs the exceptions among them.\<close>

fun log_results :: "(exn + unit) list \<Rightarrow> world \<Rightarrow> world" where
  "log_results [] s = s"
| "log_results (r # rs) s =
     log_results rs (case r of Inl e \<Rightarrow> emit (BroadcastError e) s | Inr u \<Rightarrow> s)"

text \<open>The list \<^verbatim>\<open>send_tasks\<close>: Python iterates the set in an order of its own; the model
  takes the ascending one.\<close>

definition send_tasks :: "conn option \<Rightarrow> world \<Rightarrow> conn list" where
  "send_tasks exclude s =
     filter (\<lambda>client. Some client \<noteq> exclude) (sorted_list_of_fset (connected_clients s))"

definition broadcast :: "codec \<Rightarrow> json \<Rightarrow> conn option \<Rightarrow> world \<Rightarrow> (exn + retval) \<times> world" where
  "broadcast cd message exclude s =
     (if connected_clients s = {||} then (Inr PyNone, emit NoClientsForBroadcast s)
      else
        let message_json = dumps cd message;
            tasks = send_tasks exclude s
        in if tasks \<noteq> [] then
             (let (results, s1) = gather tasks message_json s
              in (Inr PyNone, log_results results s1))
           else (Inr PyNone, s))"

definition welcome_msg :: "nat \<Rightarrow> string \<Rightarrow> json" where
  "welcome_msg client_count ts =
     JObj [(''type'', JStr ''system''),
           (''message'', JStr ''Connected to server''),
           (''timestamp'', JStr ts),
           (''client_count'', JNum (int client_count))]"

definition joined_msg :: "nat \<Rightarrow> string \<Rightarrow> json" where
  "joined_msg client_count ts =
     JObj [(''type'', JStr ''system''),
           (''message'', JStr (''New client joined. Total: '' @ string_of_nat client_count)),
           (''timestamp'', JStr ts)]"

definition left_msg :: "nat \<Rightarrow> string \<Rightarrow> json" where
  "left_msg client_count ts =
     JObj [(''type'', JStr ''system''),
           (''message'', JStr (''Client left. Total: '' @ string_of_nat client_count)),
           (''timestamp'', JStr ts)]"

definition broadcast_msg :: "json \<Rightarrow> json \<Rightarrow> string \<Rightarrow> json" where
  "broadcast_msg content sender ts =
     JObj [(''type'', JStr ''message''),
           (''content'', content),
           (''sender'', sender),
           (''timestamp'', JStr ts)]"

definition error_msg :: json where
  "error_msg =
     JObj [(''type'', JStr ''error''), (''message'', JStr ''Invalid message format'')]"

definition register_client :: "codec \<Rightarrow> conn \<Rightarrow> world \<Rightarrow> (exn + unit) \<times> world" where
  "register_client cd websocket s =
     (let s1 = add_client websocket s;
          client_count = fcard (connected_clients s1);
          s2 = emit (ClientConnected client_count) s1;
          (ts, s3) = now_isoformat cd s2
      in case ws_send websocket (dumps cd (welcome_msg client_count ts)) s3 of
           (Inl e, s4) \<Rightarrow> (Inl e, s4)
         | (Inr u, s4) \<Rightarrow>
             (let (ts', s5) = now_isoformat cd s4
              in (case broadcast cd (joined_msg client_count ts') (Some websocket) s5 of
                    (Inl e, s6) \<Rightarrow> (Inl e, s6)
                  | (Inr r, s6) \<Rightarrow> (Inr (), s6))))"

definition unregister_client :: "codec \<Rightarrow> conn \<Rightarrow> world \<Rightarrow> (exn + unit) \<times> world" where
  "unregister_client cd websocket s =
     (let s1 = discard_client websocket s;
          client_count = fcard (connected_clients s1);
          s2 = emit (ClientDisconnected client_count) s1;
          (ts, s3) = now_isoformat cd s2
      in case broadcast cd (left_msg client_count ts) None s3 of
           (Inl e, s4) \<Rightarrow> (Inl e, s4)
         | (Inr r, s4) \<Rightarrow> (Inr (), s4))"

text \<open>The inner \<^verbatim>\<open>try\<close> block of \<^verbatim>\<open>handle_client\<close>: parse, build the envelope, broadcast
  it with no exclusion.\<close>

definition message_try :: "codec \<Rightarrow> string \<Rightarrow> world \<Rightarrow> (exn + unit) \<times> world" where
  "message_try cd message s =
     (case loads cd message of
        Inl e \<Rightarrow> (Inl e, s)
      | Inr data \<Rightarrow>
         (case py_get data ''content'' (JStr '''') of
            Inl e \<Rightarrow> (Inl e, s)
          | Inr content \<Rightarrow>
             (case py_get data ''sender'' (JStr ''anonymous'') of
                Inl e \<Rightarrow> (Inl e, s)
              | Inr sender \<Rightarrow>
                 (let (ts, s1) = now_isoformat cd s
                  in (case broadcast cd (broadcast_msg content sender ts) None s1 of
                        (Inl e, s2) \<Rightarrow> (Inl e, s2)
                      | (Inr r, s2) \<Rightarrow> (Inr (), s2))))))"

text \<open>The body of the \<^verbatim>\<open>async for\<close> loop: the inner \<^verbatim>\<open>try\<close> with its two handlers. An
  exception raised inside the \<^verbatim>\<open>JSONDecodeError\<close> handler is not caught by the handler next
  to it and leaves the loop.\<close>

definition on_message :: "codec \<Rightarrow> conn \<Rightarrow> string \<Rightarrow> world \<Rightarrow> (exn + unit) \<times> world" where
  "on_message cd websocket message s =
     (case message_try cd message (emit (Received message) s) of
        (Inr u, s1) \<Rightarrow> (Inr (), s1)
      | (Inl e, s1) \<Rightarrow>
          if e = JSONDecodeError
          then ws_send websocket (dumps cd error_msg) (emit (InvalidJSON message) s1)
          else (Inr (), emit (ProcessingError e) s1))"

fun inbound_loop ::
  "codec \<Rightarrow> conn \<Rightarrow> string list \<Rightarrow> close_cause \<Rightarrow> world \<Rightarrow> (exn + unit) \<times> world" where
  "inbound_loop cd websocket [] ending s = (stream_end ending, s)"
| "inbound_loop cd websocket (message # rest) ending s =
     (case on_message cd websocket message s of
        (Inl e, s1) \<Rightarrow> (Inl e, s1)
      | (Inr u, s1) \<Rightarrow> inbound_loop cd websocket rest ending s1)"

text \<open>The two handlers of the outer \<^verbatim>\<open>try\<close>.\<close>

definition outer_handlers :: "exn + unit \<Rightarrow> world \<Rightarrow> world" where
  "outer_handlers r s =
     (case r of
        Inr u \<Rightarrow> s
      | Inl e \<Rightarrow> if e = ConnectionClosed then emit ClosedNormally s else emit (HandlerError e) s)"

text \<open>\<^verbatim>\<open>handle_client\<close>: registration stands before the \<^verbatim>\<open>try\<close>, so an exception there
  leaves the coroutine at once; the \<^verbatim>\<open>finally\<close> clause runs after the loop, however it
  ended.\<close>

definition handle_client ::
  "codec \<Rightarrow> conn \<Rightarrow> string \<Rightarrow> string list \<Rightarrow> close_cause \<Rightarrow> world \<Rightarrow> (exn + unit) \<times> world" where
  "handle_client cd websocket path inbound ending s =
     (case register_client cd websocket s of
        (Inl e, s1) \<Rightarrow> (Inl e, s1)
      | (Inr u, s1) \<Rightarrow>
          let (r, s2) = inbound_loop cd websocket inbound ending s1
          in unregister_client cd websocket (outer_handlers r s2))"

subsection \<open>What is observed\<close>

text \<open>The calls of \<^verbatim>\<open>websocket.send\<close> issued between two states, and the connections
  they were addressed to.\<close>

definition issued :: "world \<Rightarrow> world \<Rightarrow> (conn \<times> string \<times> exn option) list" where
  "issued s s' = drop (length (sent s)) (sent s')"

definition recipients :: "world \<Rightarrow> world \<Rightarrow> conn list" where
  "recipients s s' = map fst (issued s s')"

text \<open>The payloads the inbound loop has logged as received.\<close>

fun received_of :: "log_entry list \<Rightarrow> string list" where
  "received_of [] = []"
| "received_of (Received payload # es) = payload # received_of es"
| "received_of (e # es) = received_of es"

subsection \<open>A codec and a world for the examples\<close>

text \<open>The examples run on a small codec: \<open>example_dumps\<close> writes JSON the way
  \<^verbatim>\<open>json.dumps\<close> spaces it (strings without escapes, which the examples do not need),
  \<open>example_loads\<close> reads the five payloads the examples send and rejects the rest, and the
  clock prints its reading. The theorems hold for every codec.\<close>

fun join_with :: "string \<Rightarrow> string list \<Rightarrow> string" where
  "join_with sep [] = []"
| "join_with sep [x] = x"
| "join_with sep (x # y # ys) = x @ sep @ join_with sep (y # ys)"

definition quoted :: "string \<Rightarrow> string" where
  "quoted str = CHR 0x22 # str @ [CHR 0x22]"

fun example_dumps :: "json \<Rightarrow> string" where
  "example_dumps JNull = ''null''"
| "example_dumps (JBool b) = (if b then ''true'' else ''false'')"
| "example_dumps (JNum i) =
     (if i < 0 then ''-'' @ string_of_nat (nat (- i)) else string_of_nat (nat i))"
| "example_dumps (JStr str) = quoted str"
| "example_dumps (JArr xs) = ''['' @ join_with '', '' (map example_dumps xs) @ '']''"
| "example_dumps (JObj kvs) =
     ''{'' @ join_with '', '' (map (\<lambda>(k, v). quoted k @ '': '' @ example_dumps v) kvs) @ ''}''"

definition hi_payload :: string where
  "hi_payload =
     ''{'' @ quoted ''content'' @ '': '' @ quoted ''hi'' @ '', '' @
     quoted ''sender'' @ '': '' @ quoted ''alice'' @ '', '' @
     quoted ''room'' @ '': 7}''"

definition plain_payload :: string where
  "plain_payload =
     ''{'' @ quoted ''sender'' @ '': '' @ quoted ''alice'' @ '', '' @
     quoted ''content'' @ '': '' @ quoted ''hi'' @ ''}''"

definition example_loads :: "string \<Rightarrow> exn + json" where
  "example_loads payload =
     (if payload = hi_payload
      then Inr (JObj [(''content'', JStr ''hi''), (''sender'', JStr ''alice''), (''room'', JNum 7)])
      else if payload = plain_payload
      then Inr (JObj [(''sender'', JStr ''alice''), (''content'', JStr ''hi'')])
      else if payload = ''{}'' then Inr (JObj [])
      else if payload = ''[1, 2]'' then Inr (JArr [JNum 1, JNum 2])
      else if payload = ''7'' then Inr (JNum 7)
      else Inl JSONDecodeError)"

definition example_codec :: codec where
  "example_codec =
     \<lparr>loads = example_loads, dumps = example_dumps, isoformat = string_of_nat\<rparr>"

text \<open>Connections 1, 2 and 3 are registered; the transport of 3 has closed without the
  registry knowing, and connection 4 closed before it was ever registered.\<close>

definition example_world :: world where
  "example_world =
     \<lparr>connected_clients = {|1, 2, 3|},
      transport = (\<lambda>c. if c = 3 \<or> c = 4 then Closed else Open),
      sent = [],
      logged = [],
      clock = 0\<rparr>"

section \<open>Facts about the parts\<close>

lemma emit_simps [simp]:
  "connected_clients (emit e s) = connected_clients s"
  "transport (emit e s) = transport s"
  "sent (emit e s) = sent s"
  "logged (emit e s) = logged s @ [e]"
  "clock (emit e s) = clock s"
  by (simp_all add: emit_def)

lemma add_client_simps [simp]:
  "connected_clients (add_client w s) = finsert w (connected_clients s)"
  "transport (add_client w s) = transport s"
  "sent (add_client w s) = sent s"
  "logged (add_client w s) = logged s"
  "clock (add_client w s) = clock s"
  by (simp_all add: add_client_def)

lemma discard_client_simps [simp]:
  "connected_clients (discard_client w s) = connected_clients s |-| {|w|}"
  "transport (discard_client w s) = transport s"
  "sent (discard_client w s) = sent s"
  "logged (discard_client w s) = logged s"
  "clock (discard_client w s) = clock s"
  by (simp_all add: discard_client_def)

lemma now_isoformat_simps [simp]:
  "fst (now_isoformat cd s) = isoformat cd (clock s)"
  "connected_clients (snd (now_isoformat cd s)) = connected_clients s"
  "transport (snd (now_isoformat cd s)) = transport s"
  "sent (snd (now_isoformat cd s)) = sent s"
  "logged (snd (now_isoformat cd s)) = logged s"
  "clock (snd (now_isoformat cd s)) = Suc (clock s)"
  by (simp_all add: now_isoformat_def)

lemma send_result_simps [simp]:
  "send_result Open = None"
  "send_result Closed = Some ConnectionClosed"
  "send_result Broken = Some OtherException"
  by (simp_all add: send_result_def)

lemma send_result_eq_iff [simp]:
  "send_result t = None \<longleftrightarrow> t = Open"
  "send_result t = Some ConnectionClosed \<longleftrightarrow> t = Closed"
  by (cases t; simp)+

lemma ws_send_simps [simp]:
  "fst (ws_send w p s) = (case send_result (transport s w) of None \<Rightarrow> Inr () | Some e \<Rightarrow> Inl e)"
  "connected_clients (snd (ws_send w p s)) = connected_clients s"
  "transport (snd (ws_send w p s)) = transport s"
  "sent (snd (ws_send w p s)) = sent s @ [(w, p, send_result (transport s w))]"
  "logged (snd (ws_send w p s)) = logged s"
  "clock (snd (ws_send w p s)) = clock s"
  by (simp_all add: ws_send_def Let_def split: option.splits)

lemma send_to_client_simps [simp]:
  "fst (send_to_client w m s) = Inr ()"
  "connected_clients (snd (send_to_client w m s)) =
     (if transport s w = Closed then connected_clients s |-| {|w|} else connected_clients s)"
  "transport (snd (send_to_client w m s)) = transport s"
  "sent (snd (send_to_client w m s)) = sent s @ [(w, m, send_result (transport s w))]"
  "clock (snd (send_to_client w m s)) = clock s"
  by (cases "transport s w"; simp add: send_to_client_def ws_send_def Let_def)+

lemma received_of_append [simp]: "received_of (xs @ ys) = received_of xs @ received_of ys"
  by (induction xs rule: received_of.induct) simp_all

lemma send_to_client_received [simp]:
  "received_of (logged (snd (send_to_client w m s))) = received_of (logged s)"
  by (cases "transport s w") (simp_all add: send_to_client_def ws_send_def Let_def)

subsection \<open>The fan-out\<close>

lemma gather_fst: "fst (gather cs m s) = replicate (length cs) (Inr ())"
  by (induction cs arbitrary: s) (simp_all add: split_beta Let_def)

lemma gather_transport [simp]: "transport (snd (gather cs m s)) = transport s"
  by (induction cs arbitrary: s) (simp_all add: split_beta Let_def)

lemma gather_clock [simp]: "clock (snd (gather cs m s)) = clock s"
  by (induction cs arbitrary: s) (simp_all add: split_beta Let_def)

lemma gather_received [simp]:
  "received_of (logged (snd (gather cs m s))) = received_of (logged s)"
  by (induction cs arbitrary: s) (simp_all add: split_beta Let_def)

lemma gather_sent:
  "sent (snd (gather cs m s)) = sent s @ map (\<lambda>c. (c, m, send_result (transport s c))) cs"
  by (induction cs arbitrary: s) (simp_all add: split_beta Let_def)

lemma gather_clients:
  "connected_clients (snd (gather cs m s)) =
     connected_clients s |-| fset_of_list (filter (\<lambda>c. transport s c = Closed) cs)"
  by (induction cs arbitrary: s) (auto simp add: split_beta Let_def)

lemma log_results_replicate [simp]: "log_results (replicate n (Inr ())) s = s"
  by (induction n) simp_all

lemma length_sorted_list_of_fset [simp]: "length (sorted_list_of_fset A) = fcard A"
  by (simp add: sorted_list_of_fset.rep_eq fcard.rep_eq)

lemma sorted_list_of_fset_empty [simp]: "sorted_list_of_fset {||} = []"
  by (simp add: sorted_list_of_fset.rep_eq)

lemma send_tasks_set [simp]:
  "set (send_tasks exclude s) = {c. c |\<in>| connected_clients s \<and> Some c \<noteq> exclude}"
  by (auto simp add: send_tasks_def)

lemma send_tasks_None [simp]: "send_tasks None s = sorted_list_of_fset (connected_clients s)"
  by (simp add: send_tasks_def)

lemma send_tasks_Some:
  "send_tasks (Some w) s = sorted_list_of_fset (connected_clients s |-| {|w|})"
proof (rule sorted_distinct_set_unique)
  show "sorted (send_tasks (Some w) s)"
    by (simp add: send_tasks_def sorted_list_of_fset.rep_eq sorted_wrt_filter)
  show "distinct (send_tasks (Some w) s)"
    by (simp add: send_tasks_def sorted_list_of_fset.rep_eq)
  show "sorted (sorted_list_of_fset (connected_clients s |-| {|w|}))"
    by (simp add: sorted_list_of_fset.rep_eq)
  show "distinct (sorted_list_of_fset (connected_clients s |-| {|w|}))"
    by (simp add: sorted_list_of_fset.rep_eq)
  show "set (send_tasks (Some w) s) = set (sorted_list_of_fset (connected_clients s |-| {|w|}))"
    by auto
qed

lemma send_tasks_no_clients [simp]:
  "connected_clients s = {||} \<Longrightarrow> send_tasks exclude s = []"
  by (simp add: send_tasks_def)

lemma broadcast_fst [simp]: "fst (broadcast cd msg exclude s) = Inr PyNone"
  by (simp add: broadcast_def Let_def split_beta)

lemma broadcast_transport [simp]: "transport (snd (broadcast cd msg exclude s)) = transport s"
  by (simp add: broadcast_def Let_def split_beta gather_fst)

lemma broadcast_clock [simp]: "clock (snd (broadcast cd msg exclude s)) = clock s"
  by (simp add: broadcast_def Let_def split_beta gather_fst)

lemma broadcast_received [simp]:
  "received_of (logged (snd (broadcast cd msg exclude s))) = received_of (logged s)"
  by (simp add: broadcast_def Let_def split_beta gather_fst)

lemma broadcast_sent:
  "sent (snd (broadcast cd msg exclude s)) =
     sent s @ map (\<lambda>c. (c, dumps cd msg, send_result (transport s c))) (send_tasks exclude s)"
  by (cases "send_tasks exclude s = []")
     (simp_all add: broadcast_def Let_def split_beta gather_fst gather_sent)

lemma broadcast_clients:
  "connected_clients (snd (broadcast cd msg exclude s)) =
     connected_clients s |-|
       fset_of_list (filter (\<lambda>c. transport s c = Closed) (send_tasks exclude s))"
  by (cases "send_tasks exclude s = []")
     (simp_all add: broadcast_def Let_def split_beta gather_fst gather_clients)

lemma issued_append [simp]: "sent s' = sent s @ xs \<Longrightarrow> issued s s' = xs"
  by (simp add: issued_def)

subsection \<open>Registration, departure and the loop body\<close>

lemma register_client_fst [simp]:
  "fst (register_client cd w s) =
     (case send_result (transport s w) of None \<Rightarrow> Inr () | Some e \<Rightarrow> Inl e)"
  by (cases "transport s w") (simp_all add: register_client_def Let_def split_beta)

lemma register_client_transport [simp]:
  "transport (snd (register_client cd w s)) = transport s"
  by (cases "transport s w") (simp_all add: register_client_def Let_def split_beta)

lemma register_client_received [simp]:
  "received_of (logged (snd (register_client cd w s))) = received_of (logged s)"
  by (cases "transport s w") (simp_all add: register_client_def Let_def split_beta)

lemma register_client_failed:
  "transport s w \<noteq> Open \<Longrightarrow>
     connected_clients (snd (register_client cd w s)) = finsert w (connected_clients s)"
  by (cases "transport s w") (simp_all add: register_client_def Let_def split_beta)

lemma register_client_sent:
  "transport s w = Open \<Longrightarrow>
     sent (snd (register_client cd w s)) =
       sent s @
       (w, dumps cd (welcome_msg (fcard (finsert w (connected_clients s))) (isoformat cd (clock s))),
        None) #
       map (\<lambda>c. (c,
                 dumps cd (joined_msg (fcard (finsert w (connected_clients s)))
                             (isoformat cd (Suc (clock s)))),
                 send_result (transport s c)))
           (sorted_list_of_fset (connected_clients s |-| {|w|}))"
  by (simp add: register_client_def Let_def split_beta broadcast_sent send_tasks_Some)

lemma unregister_client_fst [simp]: "fst (unregister_client cd w s) = Inr ()"
  by (simp add: unregister_client_def Let_def split_beta)

lemma unregister_client_sent:
  "sent (snd (unregister_client cd w s)) =
     sent s @
     map (\<lambda>c. (c,
               dumps cd (left_msg (fcard (connected_clients s |-| {|w|})) (isoformat cd (clock s))),
               send_result (transport s c)))
         (sorted_list_of_fset (connected_clients s |-| {|w|}))"
  by (simp add: unregister_client_def Let_def split_beta broadcast_sent)

lemma unregister_client_clients:
  "connected_clients (snd (unregister_client cd w s)) |\<subseteq>| connected_clients s |-| {|w|}"
  by (auto simp add: unregister_client_def Let_def split_beta broadcast_clients)

lemma not_dict_get [simp]: "\<not> is_dict v \<Longrightarrow> py_get v key dflt = Inl AttributeError"
  by (cases v) simp_all

lemma message_try_raises:
  "fst (message_try cd m s) = Inl e \<Longrightarrow> snd (message_try cd m s) = s"
  by (simp add: message_try_def Let_def split_beta split: sum.splits)

lemma on_message_decode_error:
  "loads cd m = Inl JSONDecodeError \<Longrightarrow>
     on_message cd w m s =
       ws_send w (dumps cd error_msg) (emit (InvalidJSON m) (emit (Received m) s))"
  by (simp add: on_message_def message_try_def)

lemma on_message_other_error:
  "loads cd m = Inl e \<Longrightarrow> e \<noteq> JSONDecodeError \<Longrightarrow>
     on_message cd w m s = (Inr (), emit (ProcessingError e) (emit (Received m) s))"
  by (simp add: on_message_def message_try_def)

lemma on_message_not_dict:
  "loads cd m = Inr v \<Longrightarrow> \<not> is_dict v \<Longrightarrow>
     on_message cd w m s = (Inr (), emit (ProcessingError AttributeError) (emit (Received m) s))"
  by (simp add: on_message_def message_try_def)

lemma on_message_dict:
  "loads cd m = Inr (JObj kvs) \<Longrightarrow>
     on_message cd w m s =
       (Inr (),
        snd (broadcast cd
               (broadcast_msg (case map_of kvs ''content'' of None \<Rightarrow> JStr '''' | Some v \<Rightarrow> v)
                  (case map_of kvs ''sender'' of None \<Rightarrow> JStr ''anonymous'' | Some v \<Rightarrow> v)
                  (isoformat cd (clock s)))
               None (snd (now_isoformat cd (emit (Received m) s)))))"
  by (simp add: on_message_def message_try_def Let_def split_beta)

lemma on_message_cases:
  obtains (decode) "loads cd m = Inl JSONDecodeError"
  | (other) e where "loads cd m = Inl e" "e \<noteq> JSONDecodeError"
  | (not_dict) v where "loads cd m = Inr v" "\<not> is_dict v"
  | (dict) kvs where "loads cd m = Inr (JObj kvs)"
proof (cases "loads cd m")
  case (Inl e)
  then show ?thesis using decode other by (cases "e = JSONDecodeError") auto
next
  case (Inr v)
  then show ?thesis using not_dict dict by (cases v) auto
qed

lemma on_message_transport [simp]: "transport (snd (on_message cd w m s)) = transport s"
  by (cases cd m rule: on_message_cases)
     (simp_all add: on_message_decode_error on_message_other_error on_message_not_dict
        on_message_dict)

lemma on_message_received [simp]:
  "received_of (logged (snd (on_message cd w m s))) = received_of (logged s) @ [m]"
  by (cases cd m rule: on_message_cases)
     (simp_all add: on_message_decode_error on_message_other_error on_message_not_dict
        on_message_dict)

lemma on_message_open: "transport s w = Open \<Longrightarrow> fst (on_message cd w m s) = Inr ()"
  by (cases cd m rule: on_message_cases)
     (simp_all add: on_message_decode_error on_message_other_error on_message_not_dict
        on_message_dict)

lemma on_message_raises:
  "fst (on_message cd w m s) = Inl e \<Longrightarrow>
     loads cd m = Inl JSONDecodeError \<and> send_result (transport s w) = Some e"
  by (cases cd m rule: on_message_cases)
     (simp_all add: on_message_decode_error on_message_other_error on_message_not_dict
        on_message_dict split: option.splits)

lemma inbound_loop_step:
  "fst (on_message cd w m s) = Inr () \<Longrightarrow>
     inbound_loop cd w (m # rest) ending s =
       inbound_loop cd w rest ending (snd (on_message cd w m s))"
  by (cases "on_message cd w m s") (simp split: sum.splits)

lemma inbound_loop_stop:
  "fst (on_message cd w m s) = Inl e \<Longrightarrow>
     inbound_loop cd w (m # rest) ending s = on_message cd w m s"
  by (cases "on_message cd w m s") (simp split: sum.splits)

lemma inbound_loop_open:
  "transport s w = Open \<Longrightarrow>
     fst (inbound_loop cd w inbound ending s) = stream_end ending \<and>
     received_of (logged (snd (inbound_loop cd w inbound ending s))) =
       received_of (logged s) @ inbound"
proof (induction inbound arbitrary: s)
  case Nil
  then show ?case by simp
next
  case (Cons m rest)
  have "fst (on_message cd w m s) = Inr ()"
    using Cons.prems by (rule on_message_open)
  then have step: "inbound_loop cd w (m # rest) ending s =
      inbound_loop cd w rest ending (snd (on_message cd w m s))"
    by (rule inbound_loop_step)
  have "transport (snd (on_message cd w m s)) w = Open"
    using Cons.prems by simp
  from Cons.IH [OF this] show ?case
    unfolding step by simp
qed

subsection \<open>The handler and the examples\<close>

lemma fcard_fminus_joined: "fcard (A |-| {|x|}) = fcard (finsert x A) - 1"
  by (simp add: fcard_finsert_if fcard_fminus_fsingleton_if)

lemma recipients_append [simp]:
  "sent s' = sent s @ xs \<Longrightarrow> recipients s s' = map fst xs"
  by (simp add: recipients_def)

lemma handle_client_registered:
  "fst (register_client cd w s) = Inr () \<Longrightarrow>
     handle_client cd w path inbound ending s =
       unregister_client cd w
         (outer_handlers (fst (inbound_loop cd w inbound ending (snd (register_client cd w s))))
            (snd (inbound_loop cd w inbound ending (snd (register_client cd w s)))))"
  by (cases "register_client cd w s") (simp add: handle_client_def split_beta)

lemma handle_client_not_registered:
  "fst (register_client cd w s) = Inl e \<Longrightarrow>
     handle_client cd w path inbound ending s = register_client cd w s"
  by (cases "register_client cd w s") (simp add: handle_client_def)

lemma handle_client_unregisters:
  "transport s w = Open \<Longrightarrow>
     w |\<notin>| connected_clients (snd (handle_client cd w path inbound ending s))"
proof -
  assume "transport s w = Open"
  then have "fst (register_client cd w s) = Inr ()"
    by simp
  then show ?thesis
    using unregister_client_clients by (fastforce simp add: handle_client_registered)
qed

lemma handle_client_leaks:
  "transport s w \<noteq> Open \<Longrightarrow>
     handle_client cd w path inbound ending s = register_client cd w s \<and>
     w |\<in>| connected_clients (snd (handle_client cd w path inbound ending s))"
proof -
  assume closed: "transport s w \<noteq> Open"
  then obtain e where "fst (register_client cd w s) = Inl e"
    by (cases "transport s w") simp_all
  then have "handle_client cd w path inbound ending s = register_client cd w s"
    by (rule handle_client_not_registered)
  with closed show ?thesis
    by (simp add: register_client_failed)
qed

lemma example_registry_sorted:
  "sorted_list_of_fset (connected_clients example_world) = [1, 2, 3]"
  by (simp add: example_world_def sorted_list_of_fset.rep_eq)

lemma example_loads_simps:
  "loads example_codec hi_payload =
     Inr (JObj [(''content'', JStr ''hi''), (''sender'', JStr ''alice''), (''room'', JNum 7)])"
  "loads example_codec ''{}'' = Inr (JObj [])"
  "loads example_codec ''[1, 2]'' = Inr (JArr [JNum 1, JNum 2])"
  "loads example_codec ''7'' = Inr (JNum 7)"
  "loads example_codec ''not-json'' = Inl JSONDecodeError"
  "loads example_codec plain_payload =
     Inr (JObj [(''sender'', JStr ''alice''), (''content'', JStr ''hi'')])"
  by (simp_all add: example_codec_def example_loads_def hi_payload_def plain_payload_def
      quoted_def)

lemma example_transport_simps:
  "transport example_world 1 = Open"
  "transport example_world 2 = Open"
  "transport example_world 3 = Closed"
  "transport example_world 4 = Closed"
  "transport example_world 5 = Open"
  "transport example_world (Suc 0) = Open"
  by (simp_all add: example_world_def)

section \<open>The claims\<close>

subsection \<open>The registry\<close>

text \<open>
  C9. The two mutations of the registry, \<^verbatim>\<open>connected_clients.add\<close> in
  \<^verbatim>\<open>register_client\<close> and \<^verbatim>\<open>connected_clients.discard\<close> in \<^verbatim>\<open>unregister_client\<close>, have
  set semantics: adding a handle twice is adding it once, adding a handle that is present
  changes neither the registry nor its count, and removing a handle that is absent gives
  the state back unchanged. Both are total: neither has an error result.
\<close>

theorem C9_registry_set_semantics:
  "add_client h (add_client h s) = add_client h s \<and>
   (h |\<in>| connected_clients s \<longrightarrow>
      add_client h s = s \<and>
      fcard (connected_clients (add_client h s)) = fcard (connected_clients s)) \<and>
   (h |\<notin>| connected_clients s \<longrightarrow> discard_client h s = s)"
  by (simp add: add_client_def discard_client_def finsert_absorb)

theorem C9_registry_set_semantics_witness:
  "2 |\<in>| connected_clients example_world \<and>
   add_client 2 example_world = example_world \<and>
   fcard (connected_clients (add_client 2 example_world)) = 3 \<and>
   9 |\<notin>| connected_clients example_world \<and>
   discard_client 9 example_world = example_world \<and>
   add_client 9 (add_client 9 example_world) = add_client 9 example_world"
proof -
  have present: "2 |\<in>| connected_clients example_world"
    by (simp add: example_world_def)
  have absent: "9 |\<notin>| connected_clients example_world"
    by (simp add: example_world_def)
  have count: "fcard (connected_clients example_world) = 3"
    by (simp add: example_world_def fcard_finsert_if)
  from C9_registry_set_semantics [of 2 example_world]
    C9_registry_set_semantics [of 9 example_world] present absent count
  show ?thesis by simp
qed

subsection \<open>The broadcast\<close>

text \<open>
  C8, as the code has it. \<^verbatim>\<open>broadcast\<close> has no \<^verbatim>\<open>return\<close> with a value: every call hands
  \<^verbatim>\<open>None\<close> back to its caller. The per-recipient results exist only inside the call, as
  the list \<^verbatim>\<open>results\<close> of \<^verbatim>\<open>asyncio.gather\<close>: one entry per targeted recipient, every one
  of them the normal return of \<^verbatim>\<open>send_to_client\<close> (which handles its own exceptions), read
  by the logging loop and then dropped.
\<close>

theorem C8_broadcast_returns_none:
  "fst (broadcast cd message exclude s) = Inr PyNone \<and>
   fst (gather (send_tasks exclude s) (dumps cd message) s) =
     replicate (length (send_tasks exclude s)) (Inr ())"
  by (simp add: gather_fst)

theorem C8_broadcast_returns_none_witness:
  "fst (broadcast example_codec error_msg None example_world) = Inr PyNone \<and>
   fst (gather (send_tasks None example_world) (dumps example_codec error_msg) example_world) =
     [Inr (), Inr (), Inr ()]"
proof -
  have "length (send_tasks None example_world) = 3"
    by (simp add: example_world_def fcard_finsert_if)
  with C8_broadcast_returns_none [of example_codec error_msg None example_world]
  show ?thesis by (simp add: numeral_3_eq_3)
qed

text \<open>
  C8, as the specification states it, fails: with three connections registered, all three
  are targeted, and the caller gets \<^verbatim>\<open>None\<close>, not a list of three outcomes.
\<close>

theorem C8_outcome_list_counterexample:
  "send_tasks None example_world = [1, 2, 3] \<and>
   fst (broadcast example_codec error_msg None example_world) = Inr PyNone \<and>
   fst (broadcast example_codec error_msg None example_world) \<noteq>
     Inr (PyList [Inr (), Inr (), Inl ConnectionClosed])"
  by (simp add: example_world_def sorted_list_of_fset.rep_eq)

text \<open>
  C3. A broadcast targets a registered connection \<open>stale\<close> whose transport has closed, so
  that its \<^verbatim>\<open>send\<close> raises \<^verbatim>\<open>ConnectionClosed\<close>. Then: every per-recipient task, the one of
  \<open>stale\<close> included, returns normally (the exception is handled inside
  \<^verbatim>\<open>send_to_client\<close>); the broadcast returns to its caller without an exception; \<open>stale\<close> is
  no longer registered afterwards, and the registry has lost exactly the targeted
  connections whose transport was closed; and every recipient of the snapshot got its send
  of the same frame, so each one with an open transport had the frame written.
\<close>

theorem C3_stale_recipient_evicted:
  assumes "stale |\<in>| connected_clients s"
    and "Some stale \<noteq> exclude"
    and "transport s stale = Closed"
  shows "fst (gather (send_tasks exclude s) (dumps cd message) s) =
           replicate (length (send_tasks exclude s)) (Inr ()) \<and>
         fst (broadcast cd message exclude s) = Inr PyNone \<and>
         stale |\<notin>| connected_clients (snd (broadcast cd message exclude s)) \<and>
         connected_clients (snd (broadcast cd message exclude s)) =
           ffilter (\<lambda>c. \<not> (Some c \<noteq> exclude \<and> transport s c = Closed)) (connected_clients s) \<and>
         issued s (snd (broadcast cd message exclude s)) =
           map (\<lambda>c. (c, dumps cd message, send_result (transport s c))) (send_tasks exclude s) \<and>
         (\<forall>c. c |\<in>| connected_clients s \<and> Some c \<noteq> exclude \<and> transport s c = Open \<longrightarrow>
              (c, dumps cd message, None) \<in> set (issued s (snd (broadcast cd message exclude s))))"
proof -
  have evicted: "connected_clients (snd (broadcast cd message exclude s)) =
      ffilter (\<lambda>c. \<not> (Some c \<noteq> exclude \<and> transport s c = Closed)) (connected_clients s)"
    by (auto simp add: broadcast_clients fset_of_list_elem)
  have frames: "issued s (snd (broadcast cd message exclude s)) =
      map (\<lambda>c. (c, dumps cd message, send_result (transport s c))) (send_tasks exclude s)"
    by (simp add: broadcast_sent)
  have "(c, dumps cd message, None) \<in> set (issued s (snd (broadcast cd message exclude s)))"
    if "c |\<in>| connected_clients s" "Some c \<noteq> exclude" "transport s c = Open" for c
    using that by (auto simp add: frames image_iff)
  with assms evicted frames show ?thesis
    by (simp add: gather_fst)
qed

theorem C3_stale_recipient_evicted_witness:
  "3 |\<in>| connected_clients example_world \<and>
   Some 3 \<noteq> (None :: conn option) \<and>
   transport example_world 3 = Closed \<and>
   fst (broadcast example_codec error_msg None example_world) = Inr PyNone \<and>
   connected_clients (snd (broadcast example_codec error_msg None example_world)) = {|1, 2|} \<and>
   issued example_world (snd (broadcast example_codec error_msg None example_world)) =
     [(1, dumps example_codec error_msg, None),
      (2, dumps example_codec error_msg, None),
      (3, dumps example_codec error_msg, Some ConnectionClosed)]"
proof -
  have h1: "3 |\<in>| connected_clients example_world"
    by (simp add: example_world_def)
  have h2: "Some 3 \<noteq> (None :: conn option)"
    by simp
  have h3: "transport example_world 3 = Closed"
    by (simp add: example_world_def)
  have tasks: "send_tasks None example_world = [1, 2, 3]"
    by (simp add: example_world_def sorted_list_of_fset.rep_eq)
  have left: "ffilter (\<lambda>c. \<not> (Some c \<noteq> (None :: conn option) \<and> transport example_world c = Closed))
      (connected_clients example_world) = {|1, 2|}"
    by (auto simp add: example_world_def)
  have sends: "map (\<lambda>c. (c, dumps example_codec error_msg, send_result (transport example_world c)))
      [1, 2, 3] =
     [(1, dumps example_codec error_msg, None),
      (2, dumps example_codec error_msg, None),
      (3, dumps example_codec error_msg, Some ConnectionClosed)]"
    by (simp add: example_world_def)
  from C3_stale_recipient_evicted [OF h1 h2 h3, of example_codec error_msg]
  show ?thesis
    using h1 h2 h3 by (simp only: tasks left sends simp_thms)
qed

text \<open>
  C1. A chat message (a payload that parses as a JSON object) is broadcast with no
  excluded connection: a send is issued to every registered connection, one each, so to
  all K of them, the sender included when it is registered. The join announcement of
  \<^verbatim>\<open>register_client\<close>, made once the welcome has been written to the joiner, excludes the
  joiner: after the welcome, the announcement frame goes to every registered connection
  but the joiner, which is K - 1 connections when K are registered at that moment (the
  joiner among them).
\<close>

theorem C1_chat_to_all_join_to_others:
  "(loads cd message = Inr (JObj kvs) \<longrightarrow>
      recipients s (snd (on_message cd sender message s)) =
        sorted_list_of_fset (connected_clients s) \<and>
      fset_of_list (recipients s (snd (on_message cd sender message s))) =
        connected_clients s \<and>
      length (recipients s (snd (on_message cd sender message s))) =
        fcard (connected_clients s) \<and>
      (sender |\<in>| connected_clients s) =
        (sender \<in> set (recipients s (snd (on_message cd sender message s))))) \<and>
   (transport s joiner = Open \<longrightarrow>
      issued s (snd (register_client cd joiner s)) =
        (joiner,
         dumps cd (welcome_msg (fcard (finsert joiner (connected_clients s)))
                     (isoformat cd (clock s))),
         None) #
        map (\<lambda>c. (c,
                  dumps cd (joined_msg (fcard (finsert joiner (connected_clients s)))
                              (isoformat cd (Suc (clock s)))),
                  send_result (transport s c)))
            (sorted_list_of_fset (connected_clients s |-| {|joiner|})) \<and>
      fset_of_list (tl (recipients s (snd (register_client cd joiner s)))) =
        finsert joiner (connected_clients s) |-| {|joiner|} \<and>
      length (tl (recipients s (snd (register_client cd joiner s)))) =
        fcard (finsert joiner (connected_clients s)) - 1 \<and>
      joiner \<notin> set (tl (recipients s (snd (register_client cd joiner s)))))"
proof -
  have chat: "recipients s (snd (on_message cd sender message s)) =
      sorted_list_of_fset (connected_clients s)"
    if "loads cd message = Inr (JObj kvs)"
    using that by (simp add: on_message_dict broadcast_sent comp_def)
  have join: "recipients s (snd (register_client cd joiner s)) =
      joiner # sorted_list_of_fset (connected_clients s |-| {|joiner|})"
    if "transport s joiner = Open"
    using that by (simp add: register_client_sent comp_def)
  have frames: "issued s (snd (register_client cd joiner s)) =
      (joiner,
       dumps cd (welcome_msg (fcard (finsert joiner (connected_clients s)))
                   (isoformat cd (clock s))),
       None) #
      map (\<lambda>c. (c,
                dumps cd (joined_msg (fcard (finsert joiner (connected_clients s)))
                            (isoformat cd (Suc (clock s)))),
                send_result (transport s c)))
          (sorted_list_of_fset (connected_clients s |-| {|joiner|}))"
    if "transport s joiner = Open"
    using that by (simp add: register_client_sent)
  show ?thesis
  proof (intro conjI impI)
    assume "transport s joiner = Open"
    then show "issued s (snd (register_client cd joiner s)) =
      (joiner,
       dumps cd (welcome_msg (fcard (finsert joiner (connected_clients s)))
                   (isoformat cd (clock s))),
       None) #
      map (\<lambda>c. (c,
                dumps cd (joined_msg (fcard (finsert joiner (connected_clients s)))
                            (isoformat cd (Suc (clock s)))),
                send_result (transport s c)))
          (sorted_list_of_fset (connected_clients s |-| {|joiner|}))"
      by (rule frames)
  qed (simp_all add: chat join fcard_fminus_joined)
qed

theorem C1_chat_to_all_join_to_others_witness:
  "loads example_codec hi_payload =
     Inr (JObj [(''content'', JStr ''hi''), (''sender'', JStr ''alice''), (''room'', JNum 7)]) \<and>
   transport example_world 5 = Open \<and>
   fcard (connected_clients example_world) = 3 \<and>
   recipients example_world (snd (on_message example_codec 2 hi_payload example_world)) =
     [1, 2, 3] \<and>
   fcard (finsert 5 (connected_clients example_world)) = 4 \<and>
   recipients example_world (snd (register_client example_codec 5 example_world)) =
     [5, 1, 2, 3] \<and>
   length (tl (recipients example_world (snd (register_client example_codec 5 example_world)))) =
     3"
proof -
  have others: "connected_clients example_world |-| {|5|} = connected_clients example_world"
    by (simp add: example_world_def)
  have count: "fcard (connected_clients example_world) = 3"
    by (simp add: example_world_def fcard_finsert_if)
  have count': "fcard (finsert 5 (connected_clients example_world)) = 4"
    by (simp add: example_world_def fcard_finsert_if)
  note fact = C1_chat_to_all_join_to_others
    [where cd = example_codec and message = hi_payload and s = example_world and sender = 2
       and joiner = 5]
  have chat: "recipients example_world (snd (on_message example_codec 2 hi_payload example_world)) =
      [1, 2, 3]"
    using fact [THEN conjunct1] by (simp add: example_loads_simps example_registry_sorted)
  have "issued example_world (snd (register_client example_codec 5 example_world)) =
        (5,
         dumps example_codec (welcome_msg (fcard (finsert 5 (connected_clients example_world)))
                     (isoformat example_codec (clock example_world))),
         None) #
        map (\<lambda>c. (c,
                  dumps example_codec (joined_msg (fcard (finsert 5 (connected_clients example_world)))
                              (isoformat example_codec (Suc (clock example_world)))),
                  send_result (transport example_world c)))
            (sorted_list_of_fset (connected_clients example_world |-| {|5|}))"
    using fact [THEN conjunct2] example_transport_simps(5) by blast
  then have join: "recipients example_world (snd (register_client example_codec 5 example_world)) =
      [5, 1, 2, 3]"
    unfolding others example_registry_sorted by (simp add: recipients_def)
  from chat join show ?thesis
    by (simp add: example_loads_simps example_transport_simps count count')
qed

subsection \<open>The session\<close>

text \<open>
  C7. For a payload that parses as a JSON object, the frame sent to every registered
  connection is the serialisation of one envelope with exactly four fields: type
  \<^verbatim>\<open>"message"\<close>, the payload's \<^verbatim>\<open>content\<close> (\<^verbatim>\<open>""\<close> when it has none), the payload's
  \<^verbatim>\<open>sender\<close> (\<^verbatim>\<open>"anonymous"\<close> when it has none) and the server's clock reading at the time
  of processing. Nothing else of the payload enters it: two payloads that agree on these
  two fields are processed alike.
\<close>

theorem C7_envelope_of_a_chat_message:
  assumes "loads cd message = Inr (JObj kvs)"
  shows "issued s (snd (on_message cd websocket message s)) =
           map (\<lambda>c. (c,
                     dumps cd
                       (JObj [(''type'', JStr ''message''),
                              (''content'',
                                 case map_of kvs ''content'' of None \<Rightarrow> JStr '''' | Some v \<Rightarrow> v),
                              (''sender'',
                                 case map_of kvs ''sender'' of
                                   None \<Rightarrow> JStr ''anonymous'' | Some v \<Rightarrow> v),
                              (''timestamp'', JStr (isoformat cd (clock s)))]),
                     send_result (transport s c)))
               (sorted_list_of_fset (connected_clients s)) \<and>
         (\<forall>message' kvs'.
            loads cd message' = Inr (JObj kvs') \<and>
            map_of kvs' ''content'' = map_of kvs ''content'' \<and>
            map_of kvs' ''sender'' = map_of kvs ''sender'' \<longrightarrow>
            message_try cd message' s = message_try cd message s)"
  using assms
  by (simp add: on_message_dict broadcast_sent broadcast_msg_def message_try_def)

theorem C7_envelope_of_a_chat_message_witness:
  "loads example_codec hi_payload =
     Inr (JObj [(''content'', JStr ''hi''), (''sender'', JStr ''alice''), (''room'', JNum 7)]) \<and>
   issued example_world (snd (on_message example_codec 2 hi_payload example_world)) =
     map (\<lambda>c. (c,
               dumps example_codec
                 (JObj [(''type'', JStr ''message''),
                        (''content'', JStr ''hi''),
                        (''sender'', JStr ''alice''),
                        (''timestamp'', JStr (isoformat example_codec 0))]),
               send_result (transport example_world c)))
         [1, 2, 3] \<and>
   loads example_codec ''{}'' = Inr (JObj []) \<and>
   issued example_world (snd (on_message example_codec 2 ''{}'' example_world)) =
     map (\<lambda>c. (c,
               dumps example_codec
                 (JObj [(''type'', JStr ''message''),
                        (''content'', JStr ''''),
                        (''sender'', JStr ''anonymous''),
                        (''timestamp'', JStr (isoformat example_codec 0))]),
               send_result (transport example_world c)))
         [1, 2, 3] \<and>
   loads example_codec plain_payload =
     Inr (JObj [(''sender'', JStr ''alice''), (''content'', JStr ''hi'')]) \<and>
   message_try example_codec plain_payload example_world =
     message_try example_codec hi_payload example_world"
proof -
  have now: "clock example_world = 0"
    by (simp add: example_world_def)
  note hi = C7_envelope_of_a_chat_message [OF example_loads_simps(1), of example_world 2]
  note empty = C7_envelope_of_a_chat_message [OF example_loads_simps(2), of example_world 2]
  have "message_try example_codec plain_payload example_world =
      message_try example_codec hi_payload example_world"
    using hi [THEN conjunct2] example_loads_simps(6) by simp
  with hi [THEN conjunct1] empty [THEN conjunct1] show ?thesis
    by (simp add: example_loads_simps example_registry_sorted now)
qed

text \<open>
  What \<^verbatim>\<open>unregister_client\<close> does, and when the handler reaches it. The handle is
  discarded first and the broadcast comes afterwards, with no excluded connection: the
  system "Client left" envelope, which carries the count taken after the removal, is sent
  to exactly the connections that remain registered, the departed one not among them, and
  the departed one is not registered afterwards. A handler whose registration went
  through ends with this call, however its inbound loop ended.
\<close>

lemma leave_announcement_after_removal:
  "issued s (snd (unregister_client cd websocket s)) =
     map (\<lambda>c. (c,
               dumps cd
                 (JObj [(''type'', JStr ''system''),
                        (''message'',
                           JStr (''Client left. Total: '' @
                                 string_of_nat (fcard (connected_clients s |-| {|websocket|})))),
                        (''timestamp'', JStr (isoformat cd (clock s)))]),
               send_result (transport s c)))
         (sorted_list_of_fset (connected_clients s |-| {|websocket|})) \<and>
   fset_of_list (recipients s (snd (unregister_client cd websocket s))) =
     connected_clients s |-| {|websocket|} \<and>
   websocket \<notin> set (recipients s (snd (unregister_client cd websocket s))) \<and>
   websocket |\<notin>| connected_clients (snd (unregister_client cd websocket s)) \<and>
   fst (unregister_client cd websocket s) = Inr () \<and>
   (fst (register_client cd websocket start) = Inr () \<longrightarrow>
      handle_client cd websocket path inbound ending start =
        unregister_client cd websocket
          (outer_handlers
             (fst (inbound_loop cd websocket inbound ending (snd (register_client cd websocket start))))
             (snd (inbound_loop cd websocket inbound ending
                     (snd (register_client cd websocket start))))))"
proof -
  have gone: "websocket |\<notin>| connected_clients (snd (unregister_client cd websocket s))"
    using unregister_client_clients [of cd websocket s] by auto
  have last: "handle_client cd websocket path inbound ending start =
      unregister_client cd websocket
        (outer_handlers
           (fst (inbound_loop cd websocket inbound ending (snd (register_client cd websocket start))))
           (snd (inbound_loop cd websocket inbound ending
                   (snd (register_client cd websocket start)))))"
    if "fst (register_client cd websocket start) = Inr ()"
    using that by (rule handle_client_registered)
  have to: "recipients s (snd (unregister_client cd websocket s)) =
      sorted_list_of_fset (connected_clients s |-| {|websocket|})"
    by (simp add: unregister_client_sent comp_def)
  show ?thesis
    unfolding to using gone last
    by (simp add: unregister_client_sent left_msg_def del: register_client_fst)
qed

text \<open>
  C4 fails on the code for a session that terminates because its registration raises,
  by the same defect as C5: the \<^verbatim>\<open>finally\<close> clause, the only caller of
  \<^verbatim>\<open>unregister_client\<close>, belongs to a \<^verbatim>\<open>try\<close> that \<^verbatim>\<open>handle_client\<close> enters only after
  \<^verbatim>\<open>register_client\<close> has returned. Connection 4 closed before its welcome could be
  written. The handler finishes with the exception of that \<^verbatim>\<open>send\<close>: the handle has not
  been removed from the registry, and the refused welcome is the only \<^verbatim>\<open>send\<close> the handler
  has issued, so no "Client left" envelope has gone to the connections 1, 2 and 3, which
  are the ones \<^verbatim>\<open>unregister_client\<close> would have announced the departure to.
\<close>

theorem C4_failed_registration_neither_removes_nor_announces:
  "fst (handle_client example_codec 4 ''/'' [] NormalClose example_world) = Inl ConnectionClosed \<and>
   4 |\<in>| connected_clients
           (snd (handle_client example_codec 4 ''/'' [] NormalClose example_world)) \<and>
   issued example_world
     (snd (handle_client example_codec 4 ''/'' [] NormalClose example_world)) =
     [(4,
       dumps example_codec
         (JObj [(''type'', JStr ''system''),
                (''message'', JStr ''Connected to server''),
                (''timestamp'', JStr (isoformat example_codec 0)),
                (''client_count'', JNum 4)]),
       Some ConnectionClosed)] \<and>
   recipients (snd (handle_client example_codec 4 ''/'' [] NormalClose example_world))
     (snd (unregister_client example_codec 4
             (snd (handle_client example_codec 4 ''/'' [] NormalClose example_world)))) =
     [1, 2, 3]"
proof -
  let ?s = "snd (register_client example_codec 4 example_world)"
  have "fst (register_client example_codec 4 example_world) = Inl ConnectionClosed"
    by (simp add: example_transport_simps)
  then have run: "handle_client example_codec 4 ''/'' [] NormalClose example_world =
      register_client example_codec 4 example_world"
    by (rule handle_client_not_registered)
  have registry: "connected_clients ?s = finsert 4 (connected_clients example_world)"
    by (rule register_client_failed) (simp add: example_transport_simps)
  have "finsert 4 (connected_clients example_world) |-| {|4|} = connected_clients example_world"
    by (simp add: example_world_def)
  then have missing: "recipients ?s (snd (unregister_client example_codec 4 ?s)) = [1, 2, 3]"
    by (simp add: unregister_client_sent registry comp_def example_registry_sorted)
  have only_send: "issued example_world ?s =
     [(4,
       dumps example_codec
         (JObj [(''type'', JStr ''system''),
                (''message'', JStr ''Connected to server''),
                (''timestamp'', JStr (isoformat example_codec 0)),
                (''client_count'', JNum 4)]),
       Some ConnectionClosed)]"
    by (simp add: register_client_def Let_def split_beta welcome_msg_def issued_def
        example_world_def fcard_finsert_if fcard_fempty)
  from missing only_send show ?thesis
    unfolding run by (simp add: registry example_transport_simps)
qed

text \<open>
  C2, as the code has it. For a payload that \<^verbatim>\<open>json.loads\<close> rejects with
  \<^verbatim>\<open>JSONDecodeError\<close>, the handler makes exactly one call of \<^verbatim>\<open>send\<close>, to the sender, with
  the error envelope; nothing is broadcast and the registry is untouched. The call stands
  inside the \<^verbatim>\<open>except\<close> clause, unguarded: when the sender's transport takes the frame, the
  loop goes on with the next payload; when the \<^verbatim>\<open>send\<close> raises, no envelope reaches the
  sender, the exception leaves the loop and the rest of the inbound payloads is not read.
\<close>

theorem C2_malformed_payload_answered:
  assumes "loads cd message = Inl JSONDecodeError"
  shows "on_message cd sender message s =
           ((case send_result (transport s sender) of None \<Rightarrow> Inr () | Some e \<Rightarrow> Inl e),
            s\<lparr>sent := sent s @
                  [(sender,
                    dumps cd (JObj [(''type'', JStr ''error''),
                                    (''message'', JStr ''Invalid message format'')]),
                    send_result (transport s sender))],
              logged := logged s @ [Received message, InvalidJSON message]\<rparr>) \<and>
         (transport s sender = Open \<longrightarrow>
            issued s (snd (on_message cd sender message s)) =
              [(sender,
                dumps cd (JObj [(''type'', JStr ''error''),
                                (''message'', JStr ''Invalid message format'')]),
                None)] \<and>
            inbound_loop cd sender (message # rest) ending s =
              inbound_loop cd sender rest ending (snd (on_message cd sender message s))) \<and>
         (transport s sender \<noteq> Open \<longrightarrow>
            fst (on_message cd sender message s) \<noteq> Inr () \<and>
            issued s (snd (on_message cd sender message s)) =
              [(sender,
                dumps cd (JObj [(''type'', JStr ''error''),
                                (''message'', JStr ''Invalid message format'')]),
                send_result (transport s sender))] \<and>
            send_result (transport s sender) \<noteq> None \<and>
            inbound_loop cd sender (message # rest) ending s = on_message cd sender message s)"
proof -
  have eq: "on_message cd sender message s =
      ((case send_result (transport s sender) of None \<Rightarrow> Inr () | Some e \<Rightarrow> Inl e),
       s\<lparr>sent := sent s @
             [(sender,
               dumps cd (JObj [(''type'', JStr ''error''),
                               (''message'', JStr ''Invalid message format'')]),
               send_result (transport s sender))],
         logged := logged s @ [Received message, InvalidJSON message]\<rparr>)"
    using assms
    by (simp add: on_message_decode_error ws_send_def emit_def error_msg_def Let_def
        split: option.splits)
  have goes_on: "inbound_loop cd sender (message # rest) ending s =
      inbound_loop cd sender rest ending (snd (on_message cd sender message s))"
    if "transport s sender = Open"
    using that by (intro inbound_loop_step on_message_open)
  have refused: "issued s (snd (on_message cd sender message s)) =
        [(sender,
          dumps cd (JObj [(''type'', JStr ''error''),
                          (''message'', JStr ''Invalid message format'')]),
          send_result (transport s sender))] \<and>
      send_result (transport s sender) \<noteq> None"
    if "transport s sender \<noteq> Open"
    using that by (simp add: eq)
  have stops: "fst (on_message cd sender message s) \<noteq> Inr () \<and>
      inbound_loop cd sender (message # rest) ending s = on_message cd sender message s"
    if "transport s sender \<noteq> Open"
  proof -
    from that obtain e where raised: "fst (on_message cd sender message s) = Inl e"
      by (cases "transport s sender") (simp_all add: eq)
    from raised have "inbound_loop cd sender (message # rest) ending s =
        on_message cd sender message s"
      by (rule inbound_loop_stop)
    moreover from raised have "fst (on_message cd sender message s) \<noteq> Inr ()"
      by simp
    ultimately show ?thesis
      by blast
  qed
  have one: "issued s (snd (on_message cd sender message s)) =
      [(sender,
        dumps cd (JObj [(''type'', JStr ''error''),
                        (''message'', JStr ''Invalid message format'')]),
        None)]"
    if "transport s sender = Open"
    using that by (simp add: eq)
  from eq goes_on stops one refused show ?thesis
    by blast
qed

theorem C2_malformed_payload_answered_witness:
  "loads example_codec ''not-json'' = Inl JSONDecodeError \<and>
   transport example_world 2 = Open \<and>
   issued example_world (snd (on_message example_codec 2 ''not-json'' example_world)) =
     [(2,
       dumps example_codec
         (JObj [(''type'', JStr ''error''), (''message'', JStr ''Invalid message format'')]),
       None)] \<and>
   connected_clients (snd (on_message example_codec 2 ''not-json'' example_world)) =
     connected_clients example_world \<and>
   inbound_loop example_codec 2 [''not-json'', ''{}''] NormalClose example_world =
     inbound_loop example_codec 2 [''{}''] NormalClose
       (snd (on_message example_codec 2 ''not-json'' example_world)) \<and>
   transport example_world 3 \<noteq> Open \<and>
   fst (on_message example_codec 3 ''not-json'' example_world) \<noteq> Inr () \<and>
   issued example_world (snd (on_message example_codec 3 ''not-json'' example_world)) =
     [(3,
       dumps example_codec
         (JObj [(''type'', JStr ''error''), (''message'', JStr ''Invalid message format'')]),
       Some ConnectionClosed)] \<and>
   inbound_loop example_codec 3 [''not-json'', ''{}''] NormalClose example_world =
     on_message example_codec 3 ''not-json'' example_world"
proof -
  note answered = C2_malformed_payload_answered
    [OF example_loads_simps(5), where sender = 2 and s = example_world and rest = "[''{}'']"
       and ending = NormalClose]
  note refused = C2_malformed_payload_answered
    [OF example_loads_simps(5), where sender = 3 and s = example_world and rest = "[''{}'']"
       and ending = NormalClose]
  have closed: "transport example_world 3 \<noteq> Open"
    by (simp add: example_transport_simps)
  have "connected_clients (snd (on_message example_codec 2 ''not-json'' example_world)) =
      connected_clients example_world"
    unfolding answered [THEN conjunct1] by simp
  with answered [THEN conjunct2, THEN conjunct1] refused [THEN conjunct2, THEN conjunct2] closed
  show ?thesis
    by (simp add: example_loads_simps example_transport_simps)
qed

text \<open>
  C2, as the specification states it, fails when the sender's transport has closed while
  a payload of it is still to be read: connection 3 gets no error envelope (its \<^verbatim>\<open>send\<close>
  raises \<^verbatim>\<open>ConnectionClosed\<close>), and the loop is left, so the payload after it is never
  read.
\<close>

theorem C2_session_stays_active_counterexample:
  "loads example_codec ''not-json'' = Inl JSONDecodeError \<and>
   fst (on_message example_codec 3 ''not-json'' example_world) = Inl ConnectionClosed \<and>
   issued example_world (snd (on_message example_codec 3 ''not-json'' example_world)) =
     [(3, dumps example_codec error_msg, Some ConnectionClosed)] \<and>
   received_of
     (logged (snd (inbound_loop example_codec 3 [''not-json'', ''{}''] NormalClose example_world))) =
     [''not-json'']"
proof -
  have raised: "fst (on_message example_codec 3 ''not-json'' example_world) = Inl ConnectionClosed"
    by (simp add: on_message_decode_error example_loads_simps example_transport_simps)
  have "inbound_loop example_codec 3 [''not-json'', ''{}''] NormalClose example_world =
      on_message example_codec 3 ''not-json'' example_world"
    using raised by (rule inbound_loop_stop)
  moreover have "logged example_world = []"
    by (simp add: example_world_def)
  ultimately show ?thesis
    using raised
    by (simp add: on_message_decode_error example_loads_simps example_transport_simps)
qed

text \<open>
  C10, as the code has it. For a payload that parses to JSON that is not an object,
  \<^verbatim>\<open>data.get\<close> raises \<^verbatim>\<open>AttributeError\<close>, the generic handler of the loop body logs it, and
  that is all: no \<^verbatim>\<open>send\<close> is issued (no error envelope, no broadcast), the registry is
  untouched and the loop goes on, whatever the state of the sender's transport. A payload
  that does not parse is answered with one \<^verbatim>\<open>send\<close> of the error envelope to the sender,
  and for it the loop goes on exactly when that \<^verbatim>\<open>send\<close> succeeds.
\<close>

theorem C10_json_that_is_not_an_object:
  "(loads cd message = Inr v \<and> \<not> is_dict v \<longrightarrow>
      on_message cd sender message s =
        (Inr (), s\<lparr>logged := logged s @ [Received message, ProcessingError AttributeError]\<rparr>) \<and>
      issued s (snd (on_message cd sender message s)) = [] \<and>
      inbound_loop cd sender (message # rest) ending s =
        inbound_loop cd sender rest ending (snd (on_message cd sender message s))) \<and>
   (loads cd other = Inl JSONDecodeError \<longrightarrow>
      issued s (snd (on_message cd sender other s)) =
        [(sender, dumps cd error_msg, send_result (transport s sender))] \<and>
      (fst (on_message cd sender other s) = Inr ()) = (transport s sender = Open))"
proof -
  have silent: "on_message cd sender message s =
        (Inr (), s\<lparr>logged := logged s @ [Received message, ProcessingError AttributeError]\<rparr>) \<and>
      issued s (snd (on_message cd sender message s)) = [] \<and>
      inbound_loop cd sender (message # rest) ending s =
        inbound_loop cd sender rest ending (snd (on_message cd sender message s))"
    if parsed: "loads cd message = Inr v" and shape: "\<not> is_dict v"
  proof -
    have eq: "on_message cd sender message s =
        (Inr (), s\<lparr>logged := logged s @ [Received message, ProcessingError AttributeError]\<rparr>)"
      using parsed shape by (simp add: on_message_not_dict emit_def)
    have "inbound_loop cd sender (message # rest) ending s =
        inbound_loop cd sender rest ending (snd (on_message cd sender message s))"
      by (rule inbound_loop_step) (simp add: eq)
    moreover have "issued s (snd (on_message cd sender message s)) = []"
      by (simp add: eq issued_def)
    ultimately show ?thesis
      using eq by blast
  qed
  have contrast: "issued s (snd (on_message cd sender other s)) =
        [(sender, dumps cd error_msg, send_result (transport s sender))] \<and>
      (fst (on_message cd sender other s) = Inr ()) = (transport s sender = Open)"
    if "loads cd other = Inl JSONDecodeError"
    using that by (cases "transport s sender") (simp_all add: on_message_decode_error)
  from silent contrast show ?thesis
    by blast
qed

theorem C10_json_that_is_not_an_object_witness:
  "loads example_codec ''[1, 2]'' = Inr (JArr [JNum 1, JNum 2]) \<and>
   \<not> is_dict (JArr [JNum 1, JNum 2]) \<and>
   on_message example_codec 3 ''[1, 2]'' example_world =
     (Inr (),
      example_world\<lparr>logged := [Received ''[1, 2]'', ProcessingError AttributeError]\<rparr>) \<and>
   issued example_world (snd (on_message example_codec 3 ''[1, 2]'' example_world)) = [] \<and>
   loads example_codec ''not-json'' = Inl JSONDecodeError \<and>
   issued example_world (snd (on_message example_codec 2 ''not-json'' example_world)) =
     [(2, dumps example_codec error_msg, None)] \<and>
   fst (on_message example_codec 2 ''not-json'' example_world) = Inr ()"
proof -
  have array: "\<not> is_dict (JArr [JNum 1, JNum 2])"
    by simp
  have quiet: "logged example_world = []"
    by (simp add: example_world_def)
  note silent = C10_json_that_is_not_an_object
    [where cd = example_codec and message = "''[1, 2]''" and v = "JArr [JNum 1, JNum 2]"
       and sender = 3 and s = example_world, THEN conjunct1]
  note answered = C10_json_that_is_not_an_object
    [where cd = example_codec and sender = 2 and s = example_world and other = "''not-json''",
     THEN conjunct2]
  from silent answered show ?thesis
    by (simp add: example_loads_simps example_transport_simps quiet)
qed

text \<open>
  C10, as it is stated, fails in its last clause: the session does not go on in both
  cases. On connection 3, whose transport has closed, the array is passed over and the
  next payload is read, while the payload that does not parse ends the loop.
\<close>

theorem C10_session_continues_counterexample:
  "loads example_codec ''[1, 2]'' = Inr (JArr [JNum 1, JNum 2]) \<and>
   loads example_codec ''not-json'' = Inl JSONDecodeError \<and>
   fst (inbound_loop example_codec 3 [''[1, 2]'', ''not-json'', ''7''] NormalClose example_world) =
     Inl ConnectionClosed \<and>
   received_of
     (logged
        (snd (inbound_loop example_codec 3 [''[1, 2]'', ''not-json'', ''7''] NormalClose
                example_world))) =
     [''[1, 2]'', ''not-json'']"
proof -
  let ?s1 = "snd (on_message example_codec 3 ''[1, 2]'' example_world)"
  have first: "fst (on_message example_codec 3 ''[1, 2]'' example_world) = Inr ()"
    by (simp add: on_message_not_dict [OF example_loads_simps(3)])
  have second: "fst (on_message example_codec 3 ''not-json'' ?s1) = Inl ConnectionClosed"
    by (simp add: on_message_decode_error example_loads_simps example_transport_simps)
  have "inbound_loop example_codec 3 [''[1, 2]'', ''not-json'', ''7''] NormalClose example_world =
      inbound_loop example_codec 3 [''not-json'', ''7''] NormalClose ?s1"
    using first by (rule inbound_loop_step)
  also have "\<dots> = on_message example_codec 3 ''not-json'' ?s1"
    using second by (rule inbound_loop_stop)
  finally have run: "inbound_loop example_codec 3 [''[1, 2]'', ''not-json'', ''7''] NormalClose
      example_world = on_message example_codec 3 ''not-json'' ?s1" .
  have "logged example_world = []"
    by (simp add: example_world_def)
  then show ?thesis
    unfolding run using second by (simp add: example_loads_simps)
qed

text \<open>
  C6. When the inner \<^verbatim>\<open>try\<close> block raises anything but \<^verbatim>\<open>JSONDecodeError\<close>, the loop body
  logs the exception and returns normally, and the loop goes on with the next payload.
  The loop body can only raise through its one unguarded \<^verbatim>\<open>send\<close>, the error envelope to
  the session's own connection, so only when that connection's transport refuses the
  frame: while the transport is open, the loop reads every inbound payload, whatever the
  payloads are, and ends the way the inbound iteration ends.
\<close>

theorem C6_processing_exceptions_do_not_end_the_session:
  "(fst (message_try cd message (emit (Received message) s)) = Inl e \<and> e \<noteq> JSONDecodeError \<longrightarrow>
      on_message cd websocket message s =
        (Inr (), emit (ProcessingError e) (emit (Received message) s)) \<and>
      inbound_loop cd websocket (message # rest) ending s =
        inbound_loop cd websocket rest ending
          (emit (ProcessingError e) (emit (Received message) s))) \<and>
   (fst (on_message cd websocket message s) = Inl e' \<longrightarrow>
      transport s websocket \<noteq> Open \<and> send_result (transport s websocket) = Some e') \<and>
   (transport s websocket = Open \<longrightarrow>
      fst (inbound_loop cd websocket inbound ending s) = stream_end ending \<and>
      received_of (logged (snd (inbound_loop cd websocket inbound ending s))) =
        received_of (logged s) @ inbound)"
proof -
  have caught: "on_message cd websocket message s =
        (Inr (), emit (ProcessingError e) (emit (Received message) s)) \<and>
      inbound_loop cd websocket (message # rest) ending s =
        inbound_loop cd websocket rest ending
          (emit (ProcessingError e) (emit (Received message) s))"
    if raised: "fst (message_try cd message (emit (Received message) s)) = Inl e"
      and other: "e \<noteq> JSONDecodeError"
  proof -
    from raised have "snd (message_try cd message (emit (Received message) s)) =
        emit (Received message) s"
      by (rule message_try_raises)
    with raised have "message_try cd message (emit (Received message) s) =
        (Inl e, emit (Received message) s)"
      by (simp add: prod_eq_iff)
    with other have eq: "on_message cd websocket message s =
        (Inr (), emit (ProcessingError e) (emit (Received message) s))"
      by (simp add: on_message_def)
    then have "inbound_loop cd websocket (message # rest) ending s =
        inbound_loop cd websocket rest ending (snd (on_message cd websocket message s))"
      by (intro inbound_loop_step) simp
    with eq show ?thesis by simp
  qed
  have left: "transport s websocket \<noteq> Open \<and> send_result (transport s websocket) = Some e'"
    if "fst (on_message cd websocket message s) = Inl e'"
    using on_message_raises [OF that] by auto
  from caught left inbound_loop_open [of s websocket cd inbound ending] show ?thesis
    by blast
qed

theorem C6_processing_exceptions_do_not_end_the_session_witness:
  "fst (message_try example_codec ''7'' (emit (Received ''7'') example_world)) =
     Inl AttributeError \<and>
   AttributeError \<noteq> JSONDecodeError \<and>
   on_message example_codec 3 ''7'' example_world =
     (Inr (), emit (ProcessingError AttributeError) (emit (Received ''7'') example_world)) \<and>
   fst (on_message example_codec 3 ''not-json'' example_world) = Inl ConnectionClosed \<and>
   transport example_world 3 \<noteq> Open \<and>
   transport example_world 1 = Open \<and>
   fst (inbound_loop example_codec 1 [''7'', ''not-json'', ''[1, 2]'', hi_payload] AbnormalClose
          example_world) =
     Inl ConnectionClosed \<and>
   received_of
     (logged
        (snd (inbound_loop example_codec 1 [''7'', ''not-json'', ''[1, 2]'', hi_payload]
                AbnormalClose example_world))) =
     [''7'', ''not-json'', ''[1, 2]'', hi_payload]"
proof -
  have raised: "fst (message_try example_codec ''7'' (emit (Received ''7'') example_world)) =
      Inl AttributeError"
    by (simp add: message_try_def example_loads_simps)
  have left: "fst (on_message example_codec 3 ''not-json'' example_world) = Inl ConnectionClosed"
    by (simp add: on_message_decode_error example_loads_simps example_transport_simps)
  have quiet: "logged example_world = []"
    by (simp add: example_world_def)
  note caught = C6_processing_exceptions_do_not_end_the_session
    [where cd = example_codec and message = "''7''" and s = example_world
       and e = AttributeError and websocket = 3 and e' = ConnectionClosed]
  note refused = C6_processing_exceptions_do_not_end_the_session
    [where cd = example_codec and message = "''not-json''" and s = example_world
       and websocket = 3 and e' = ConnectionClosed]
  note reads_all = C6_processing_exceptions_do_not_end_the_session
    [where cd = example_codec and s = example_world and websocket = 1
       and inbound = "[''7'', ''not-json'', ''[1, 2]'', hi_payload]" and ending = AbnormalClose]
  from caught raised
  have "on_message example_codec 3 ''7'' example_world =
      (Inr (), emit (ProcessingError AttributeError) (emit (Received ''7'') example_world))"
    by blast
  moreover from refused left have "transport example_world 3 \<noteq> Open"
    by blast
  moreover from reads_all
  have "fst (inbound_loop example_codec 1 [''7'', ''not-json'', ''[1, 2]'', hi_payload]
          AbnormalClose example_world) = Inl ConnectionClosed \<and>
     received_of
       (logged
          (snd (inbound_loop example_codec 1 [''7'', ''not-json'', ''[1, 2]'', hi_payload]
                  AbnormalClose example_world))) =
       [''7'', ''not-json'', ''[1, 2]'', hi_payload]"
    by (simp add: example_transport_simps quiet)
  ultimately show ?thesis
    using raised left by (simp add: example_transport_simps)
qed

text \<open>
  C5 fails on the code for a session whose registration raises. \<^verbatim>\<open>register_client\<close> is
  awaited before the \<^verbatim>\<open>try\<close> whose \<^verbatim>\<open>finally\<close> clause unregisters, and it adds the handle
  before it sends the welcome. Connection 4 closed before its welcome could be written:
  the \<^verbatim>\<open>send\<close> raises, the handler finishes with that exception, no departure is
  announced, and 4 remains in the registry.
\<close>

theorem C5_failed_registration_stays_registered:
  "fst (handle_client example_codec 4 ''/'' [] NormalClose example_world) = Inl ConnectionClosed \<and>
   connected_clients (snd (handle_client example_codec 4 ''/'' [] NormalClose example_world)) =
     {|1, 2, 3, 4|} \<and>
   logged (snd (handle_client example_codec 4 ''/'' [] NormalClose example_world)) =
     [ClientConnected 4] \<and>
   recipients example_world
     (snd (handle_client example_codec 4 ''/'' [] NormalClose example_world)) = [4]"
proof -
  have "fst (register_client example_codec 4 example_world) = Inl ConnectionClosed"
    by (simp add: example_transport_simps)
  then have "handle_client example_codec 4 ''/'' [] NormalClose example_world =
      register_client example_codec 4 example_world"
    by (rule handle_client_not_registered)
  then show ?thesis
    by (auto simp add: register_client_def Let_def split_beta example_transport_simps
        example_world_def fcard_finsert_if recipients_def issued_def)
qed

end
